theory Spec2Isabelle
  imports Main
begin

section \<open>Python values and column declarations\<close>

text \<open>
  The script \<^verbatim>\<open>docs/create_db_models.py\<close> declares twelve mapped classes, creates their
  tables, builds twelve lists of two records each and commits them through one session.
  The values it stores are strings, integers, float literals and datetimes; an attribute
  that no keyword argument sets reads as \<^verbatim>\<open>None\<close>.

  A float literal is kept as the decimal the source writes (\<^verbatim>\<open>19.99\<close> is
  \<open>PyFloat 1999 2\<close>): the script does no arithmetic on it, and its binary rounding is not
  modelled.
\<close>

datatype datetime =
  Datetime (year: int) (month: int) (day: int) (hour: int) (minute: int) (second: int)
    (microsecond: int)

definition datetime_datetime :: "int \<Rightarrow> int \<Rightarrow> int \<Rightarrow> datetime" where
  \<comment> \<open>\<^verbatim>\<open>datetime.datetime(y, m, d)\<close>: the time of day defaults to zero.\<close>
  "datetime_datetime y m d = Datetime y m d 0 0 0 0"

datatype pyval = PyNone | PyInt int | PyStr string | PyFloat int nat | PyDatetime datetime

datatype coltype = Integer | String | DateTime | Float

datatype default_rule = Datetime_now

record column =
  ctype :: coltype
  primary_key :: bool
  autoincrement :: bool
  nullable :: "bool option"
  foreign_key :: "string option"
  default :: "default_rule option"

definition Column :: "coltype \<Rightarrow> column" where
  \<comment> \<open>\<^verbatim>\<open>Column(t)\<close> with no keyword argument.\<close>
  "Column t = \<lparr>ctype = t, primary_key = False, autoincrement = False, nullable = None,
     foreign_key = None, default = None\<rparr>"

definition ColumnFK :: "coltype \<Rightarrow> string \<Rightarrow> column" where
  \<comment> \<open>\<^verbatim>\<open>Column(t, ForeignKey(target))\<close>.\<close>
  "ColumnFK t target = (Column t)\<lparr>foreign_key := Some target\<rparr>"

definition is_nullable :: "column \<Rightarrow> bool" where
  \<comment> \<open>A column is nullable unless it says otherwise or is part of the primary key.\<close>
  "is_nullable c = (case nullable c of Some b \<Rightarrow> b | None \<Rightarrow> \<not> primary_key c)"

definition fk_table :: "string \<Rightarrow> string" where
  \<comment> \<open>The table of a target written \<^verbatim>\<open>'table.column'\<close>.\<close>
  "fk_table target = takeWhile (\<lambda>ch. ch \<noteq> CHR ''.'') target"

record model =
  tablename :: string
  columns :: "(string \<times> column) list"

section \<open>The twelve mapped classes\<close>

definition Customer :: model where
  "Customer = \<lparr>tablename = ''customers'', columns =
     [(''id'', (Column Integer)\<lparr>primary_key := True, autoincrement := True\<rparr>),
      (''name'', (Column String)\<lparr>nullable := Some False\<rparr>),
      (''email'', Column String),
      (''phone_number'', Column String)]\<rparr>"

definition Product :: model where
  "Product = \<lparr>tablename = ''products'', columns =
     [(''id'', (Column Integer)\<lparr>primary_key := True, autoincrement := True\<rparr>),
      (''name'', (Column String)\<lparr>nullable := Some False\<rparr>),
      (''description'', Column String),
      (''price'', Column Float)]\<rparr>"

definition Order :: model where
  "Order = \<lparr>tablename = ''orders'', columns =
     [(''id'', (Column Integer)\<lparr>primary_key := True, autoincrement := True\<rparr>),
      (''customer_id'', (ColumnFK Integer ''customers.id'')\<lparr>nullable := Some False\<rparr>),
      (''order_date'', (Column DateTime)\<lparr>default := Some Datetime_now\<rparr>)]\<rparr>"

definition OrderDetail :: model where
  "OrderDetail = \<lparr>tablename = ''order_details'', columns =
     [(''id'', (Column Integer)\<lparr>primary_key := True, autoincrement := True\<rparr>),
      (''order_id'', (ColumnFK Integer ''orders.id'')\<lparr>nullable := Some False\<rparr>),
      (''product_id'', (ColumnFK Integer ''products.id'')\<lparr>nullable := Some False\<rparr>),
      (''quantity'', (Column Integer)\<lparr>nullable := Some False\<rparr>)]\<rparr>"

definition Address :: model where
  "Address = \<lparr>tablename = ''addresses'', columns =
     [(''id'', (Column Integer)\<lparr>primary_key := True, autoincrement := True\<rparr>),
      (''customer_id'', (ColumnFK Integer ''customers.id'')\<lparr>nullable := Some False\<rparr>),
      (''address_line1'', (Column String)\<lparr>nullable := Some False\<rparr>),
      (''address_line2'', Column String),
      (''city'', (Column String)\<lparr>nullable := Some False\<rparr>),
      (''postal_code'', Column String)]\<rparr>"

definition Supplier :: model where
  "Supplier = \<lparr>tablename = ''suppliers'', columns =
     [(''id'', (Column Integer)\<lparr>primary_key := True, autoincrement := True\<rparr>),
      (''name'', (Column String)\<lparr>nullable := Some False\<rparr>),
      (''contact_name'', Column String)]\<rparr>"

definition Inventory :: model where
  "Inventory = \<lparr>tablename = ''inventory'', columns =
     [(''id'', (Column Integer)\<lparr>primary_key := True, autoincrement := True\<rparr>),
      (''product_id'', (ColumnFK Integer ''products.id'')\<lparr>nullable := Some False\<rparr>),
      (''supplier_id'', (ColumnFK Integer ''suppliers.id'')\<lparr>nullable := Some False\<rparr>),
      (''quantity'', (Column Integer)\<lparr>nullable := Some False\<rparr>)]\<rparr>"

definition Payment :: model where
  "Payment = \<lparr>tablename = ''payments'', columns =
     [(''id'', (Column Integer)\<lparr>primary_key := True, autoincrement := True\<rparr>),
      (''customer_id'', (ColumnFK Integer ''customers.id'')\<lparr>nullable := Some False\<rparr>),
      (''amount'', (Column Float)\<lparr>nullable := Some False\<rparr>),
      (''payment_date'', (Column DateTime)\<lparr>default := Some Datetime_now\<rparr>)]\<rparr>"

definition Category :: model where
  "Category = \<lparr>tablename = ''categories'', columns =
     [(''id'', (Column Integer)\<lparr>primary_key := True, autoincrement := True\<rparr>),
      (''name'', (Column String)\<lparr>nullable := Some False\<rparr>)]\<rparr>"

definition ProductCategory :: model where
  "ProductCategory = \<lparr>tablename = ''product_categories'', columns =
     [(''id'', (Column Integer)\<lparr>primary_key := True, autoincrement := True\<rparr>),
      (''product_id'', (ColumnFK Integer ''products.id'')\<lparr>nullable := Some False\<rparr>),
      (''category_id'', (ColumnFK Integer ''categories.id'')\<lparr>nullable := Some False\<rparr>)]\<rparr>"

definition Employee :: model where
  "Employee = \<lparr>tablename = ''employees'', columns =
     [(''id'', (Column Integer)\<lparr>primary_key := True, autoincrement := True\<rparr>),
      (''name'', (Column String)\<lparr>nullable := Some False\<rparr>),
      (''hire_date'', (Column DateTime)\<lparr>default := Some Datetime_now\<rparr>)]\<rparr>"

definition Shipment :: model where
  "Shipment = \<lparr>tablename = ''shipments'', columns =
     [(''id'', (Column Integer)\<lparr>primary_key := True, autoincrement := True\<rparr>),
      (''order_id'', (ColumnFK Integer ''orders.id'')\<lparr>nullable := Some False\<rparr>),
      (''ship_date'', Column DateTime)]\<rparr>"

definition Base_metadata :: "model list" where
  \<comment> \<open>The classes registered on \<^verbatim>\<open>Base\<close>, in the order the script declares them.\<close>
  "Base_metadata = [Customer, Product, Order, OrderDetail, Address, Supplier, Inventory,
     Payment, Category, ProductCategory, Employee, Shipment]"

section \<open>Records and the seed lists\<close>

text \<open>
  Calling a mapped class with keyword arguments goes through the keywords in turn: it tests
  that the class has an attribute of that name, raising \<^verbatim>\<open>TypeError\<close> when it has
  none, and sets the attribute. A keyword that names a column of the class passes the test
  and stores its value, whatever the value. For any other keyword the outcome lies with
  the library and with Python: the class may have the name from its body or from its base
  (as it has \<^verbatim>\<open>metadata\<close>), and setting it may be refused. The environment gives that
  outcome, \<open>None\<close> for a keyword that is accepted. The call looks at nothing else: not at
  the other records, not at the database.

  The environment is all that a run depends on and the script does not fix: that outcome,
  what the clock reads, and which statement, if any, the storage rejects.
\<close>

datatype error = TypeError | NameError | OperationalError | IntegrityError

record entity =
  cls :: model
  attrs :: "(string \<times> pyval) list"

record env =
  now :: datetime
  other_keyword :: "model \<Rightarrow> string \<Rightarrow> pyval \<Rightarrow> error option"
  connect_fault :: bool
  ddl_fault :: "nat option"
  dml_fault :: "nat option"
  commit_fault :: bool

fun set_attributes :: "env \<Rightarrow> model \<Rightarrow> (string \<times> pyval) list \<Rightarrow> error option" where
  "set_attributes e c [] = None"
| "set_attributes e c ((k, v) # kwargs) =
     (if k \<in> set (map fst (columns c)) then set_attributes e c kwargs
      else (case other_keyword e c k v of
              Some err \<Rightarrow> Some err
            | None \<Rightarrow> set_attributes e c kwargs))"

definition new :: "env \<Rightarrow> model \<Rightarrow> (string \<times> pyval) list \<Rightarrow> error + entity" where
  "new e c kwargs =
     (case set_attributes e c kwargs of
        Some err \<Rightarrow> Inl err
      | None \<Rightarrow> Inr \<lparr>cls = c, attrs = kwargs\<rparr>)"

definition attr :: "entity \<Rightarrow> string \<Rightarrow> pyval" where
  "attr x k = (case map_of (attrs x) k of None \<Rightarrow> PyNone | Some v \<Rightarrow> v)"

definition customers :: "env \<Rightarrow> (error + entity) list" where
  "customers e =
     [new e Customer [(''name'', PyStr ''John Doe''), (''email'', PyStr ''john.doe@example.com''),
        (''phone_number'', PyStr ''123456789'')],
      new e Customer [(''name'', PyStr ''Jane Smith''), (''email'', PyStr ''jane.smith@example.com''),
        (''phone_number'', PyStr ''987654321'')]]"

definition products :: "env \<Rightarrow> (error + entity) list" where
  "products e =
     [new e Product [(''name'', PyStr ''Widget''), (''description'', PyStr ''A useful widget''),
        (''price'', PyFloat 1999 2)],
      new e Product [(''name'', PyStr ''Gadget''), (''description'', PyStr ''An awesome gadget''),
        (''price'', PyFloat 2999 2)]]"

definition orders :: "env \<Rightarrow> (error + entity) list" where
  "orders e =
     [new e Order [(''customer_id'', PyInt 1),
        (''order_date'', PyDatetime (datetime_datetime 2023 1 1))],
      new e Order [(''customer_id'', PyInt 2),
        (''order_date'', PyDatetime (datetime_datetime 2023 2 1))]]"

definition order_details :: "env \<Rightarrow> (error + entity) list" where
  "order_details e =
     [new e OrderDetail [(''order_id'', PyInt 1), (''product_id'', PyInt 1), (''quantity'', PyInt 5)],
      new e OrderDetail [(''order_id'', PyInt 2), (''product_id'', PyInt 2), (''quantity'', PyInt 3)]]"

definition addresses :: "env \<Rightarrow> (error + entity) list" where
  "addresses e =
     [new e Address [(''customer_id'', PyInt 1), (''address_line1'', PyStr ''123 Elm St''),
        (''city'', PyStr ''Somewhere''), (''postal_code'', PyStr ''12345'')],
      new e Address [(''customer_id'', PyInt 2), (''address_line1'', PyStr ''456 Maple Ave''),
        (''city'', PyStr ''Anywhere''), (''postal_code'', PyStr ''67890'')]]"

definition suppliers :: "env \<Rightarrow> (error + entity) list" where
  "suppliers e =
     [new e Supplier [(''name'', PyStr ''ABC Supplies''), (''contact_name'', PyStr ''Alice'')],
      new e Supplier [(''name'', PyStr ''XYZ Wholesale''), (''contact_name'', PyStr ''Bob'')]]"

definition inventory :: "env \<Rightarrow> (error + entity) list" where
  "inventory e =
     [new e Inventory [(''product_id'', PyInt 1), (''supplier_id'', PyInt 1), (''quantity'', PyInt 100)],
      new e Inventory [(''product_id'', PyInt 2), (''supplier_id'', PyInt 2), (''quantity'', PyInt 200)]]"

definition payments :: "env \<Rightarrow> (error + entity) list" where
  "payments e =
     [new e Payment [(''customer_id'', PyInt 1), (''amount'', PyFloat 9995 2),
        (''payment_date'', PyDatetime (datetime_datetime 2023 1 15))],
      new e Payment [(''customer_id'', PyInt 2), (''amount'', PyFloat 8997 2),
        (''payment_date'', PyDatetime (datetime_datetime 2023 2 16))]]"

definition categories :: "env \<Rightarrow> (error + entity) list" where
  "categories e =
     [new e Category [(''name'', PyStr ''Technology'')],
      new e Category [(''name'', PyStr ''Household'')]]"

definition product_categories :: "env \<Rightarrow> (error + entity) list" where
  "product_categories e =
     [new e ProductCategory [(''product_id'', PyInt 1), (''category_id'', PyInt 1)],
      new e ProductCategory [(''product_id'', PyInt 2), (''category_id'', PyInt 2)]]"

definition employees :: "env \<Rightarrow> (error + entity) list" where
  "employees e =
     [new e Employee [(''name'', PyStr ''Manager Mike''),
        (''hire_date'', PyDatetime (datetime_datetime 2022 1 1))],
      new e Employee [(''name'', PyStr ''Worker Wanda''),
        (''hire_date'', PyDatetime (datetime_datetime 2022 2 1))]]"

definition shipments :: "env \<Rightarrow> (error + entity) list" where
  "shipments e =
     [new e Shipment [(''order_id'', PyInt 1),
        (''ship_date'', PyDatetime (datetime_datetime 2023 1 10))],
      new e Shipment [(''order_id'', PyInt 2),
        (''ship_date'', PyDatetime (datetime_datetime 2023 2 10))]]"

section \<open>The storage the script runs against\<close>

text \<open>
  The script talks to SQLite through a SQLAlchemy engine and session. Their code is not
  part of the repository; the definitions below give the behaviour the script relies on.
  \<^item> The database is a list of named tables, each with the columns it was created with and
    its rows. A fresh target is the empty list.
  \<^item> \<^verbatim>\<open>create_all\<close> opens the database, and raises when it cannot be opened. It then
    checks for each declared table whether a table of that name exists, and issues
    \<^verbatim>\<open>CREATE TABLE\<close>, with the declared columns, only when none does. It compares no
    structure.
  \<^item> \<^verbatim>\<open>session.add_all\<close> only queues records; nothing is written before
    \<^verbatim>\<open>session.commit\<close>, which flushes the queue inside one transaction: each record is
    one \<^verbatim>\<open>INSERT\<close>, in the order queued within a table, and a failure of any statement
    rolls the transaction back and re-raises.
  \<^item> An \<^verbatim>\<open>INSERT\<close> needs the table and the named columns to exist and every
    \<^verbatim>\<open>NOT NULL\<close> column of the table to get a value. SQLite checks neither the type
    of a value nor, with its default settings, a foreign key. An integer primary key left
    unset gets one more than the largest key of the table.
  \<^item> The storage can fail for reasons outside the script (a missing directory, a locked
    or full disk). The environment says whether the database can be opened and which
    statement, if any, the storage rejects.
\<close>

type_synonym row = "(string \<times> pyval) list"

record table =
  schema :: "(string \<times> column) list"
  rows :: "row list"

type_synonym database = "(string \<times> table) list"

record state =
  db :: database
  session_open :: bool
  session_new :: "entity list"
  globals :: "(string \<times> entity list) list"

type_synonym stmt = "state \<Rightarrow> error option \<times> state"

fun create_tables :: "env \<Rightarrow> nat \<Rightarrow> model list \<Rightarrow> database \<Rightarrow> error option \<times> database" where
  "create_tables e k [] d = (None, d)"
| "create_tables e k (m # ms) d =
     (if map_of d (tablename m) \<noteq> None then create_tables e k ms d
      else if ddl_fault e = Some k then (Some OperationalError, d)
      else create_tables e (Suc k) ms (d @ [(tablename m, \<lparr>schema = columns m, rows = []\<rparr>)]))"

definition create_all :: "env \<Rightarrow> model list \<Rightarrow> stmt" where
  "create_all e ms s =
     (if connect_fault e then (Some OperationalError, s)
      else (case create_tables e 0 ms (db s) of (r, d) \<Rightarrow> (r, s\<lparr>db := d\<rparr>)))"

definition Session :: stmt where
  "Session s = (None, s\<lparr>session_open := True, session_new := []\<rparr>)"

fun evaluate :: "(error + 'a) list \<Rightarrow> error + 'a list" where
  "evaluate [] = Inr []"
| "evaluate (x # xs) =
     (case x of Inl e \<Rightarrow> Inl e
      | Inr v \<Rightarrow> (case evaluate xs of Inl e \<Rightarrow> Inl e | Inr vs \<Rightarrow> Inr (v # vs)))"

definition assign :: "string \<Rightarrow> (error + entity) list \<Rightarrow> stmt" where
  \<comment> \<open>\<^verbatim>\<open>name = [C(...), C(...)]\<close>: the calls run left to right, the first error ends the script.\<close>
  "assign name exprs s =
     (case evaluate exprs of Inl e \<Rightarrow> (Some e, s)
      | Inr vs \<Rightarrow> (None, s\<lparr>globals := (name, vs) # globals s\<rparr>))"

definition add_all :: "string \<Rightarrow> stmt" where
  "add_all name s =
     (case map_of (globals s) name of None \<Rightarrow> (Some NameError, s)
      | Some xs \<Rightarrow> (None, s\<lparr>session_new := session_new s @ xs\<rparr>))"

definition rowid :: "string \<Rightarrow> row \<Rightarrow> int" where
  "rowid k r = (case map_of r k of Some (PyInt i) \<Rightarrow> i | _ \<Rightarrow> 0)"

definition next_id :: "string \<Rightarrow> row list \<Rightarrow> int" where
  "next_id k rs = 1 + fold max (map (rowid k) rs) 0"

definition column_value :: "env \<Rightarrow> row list \<Rightarrow> entity \<Rightarrow> string \<Rightarrow> column \<Rightarrow> pyval" where
  "column_value e rs x k c =
     (if attr x k \<noteq> PyNone then attr x k
      else if primary_key c \<and> ctype c = Integer then PyInt (next_id k rs)
      else (case default c of Some Datetime_now \<Rightarrow> PyDatetime (now e) | None \<Rightarrow> PyNone))"

definition has_value :: "row \<Rightarrow> string \<Rightarrow> bool" where
  "has_value r k = (case map_of r k of Some v \<Rightarrow> v \<noteq> PyNone | None \<Rightarrow> False)"

definition store :: "string \<Rightarrow> table \<Rightarrow> database \<Rightarrow> database" where
  "store name t d = map (\<lambda>(n, t'). if n = name then (n, t) else (n, t')) d"

definition insert_row :: "env \<Rightarrow> entity \<Rightarrow> database \<Rightarrow> error + database" where
  "insert_row e x d =
     (case map_of d (tablename (cls x)) of
        None \<Rightarrow> Inl OperationalError
      | Some t \<Rightarrow>
          (let r = map (\<lambda>(k, c). (k, column_value e (rows t) x k c)) (columns (cls x)) in
           if \<not> list_all (\<lambda>(k, v). k \<in> set (map fst (schema t))) r then Inl OperationalError
           else if \<not> list_all (\<lambda>(k, c). is_nullable c \<or> has_value r k) (schema t)
             then Inl IntegrityError
           else Inr (store (tablename (cls x)) (t\<lparr>rows := rows t @ [r]\<rparr>) d)))"

fun flush :: "env \<Rightarrow> nat \<Rightarrow> entity list \<Rightarrow> database \<Rightarrow> error + database" where
  "flush e k [] d = Inr d"
| "flush e k (x # xs) d =
     (if dml_fault e = Some k then Inl OperationalError
      else (case insert_row e x d of Inl err \<Rightarrow> Inl err | Inr d' \<Rightarrow> flush e (Suc k) xs d'))"

definition commit :: "env \<Rightarrow> stmt" where
  \<comment> \<open>The flush works on the transaction's view of the database; only a successful
      \<^verbatim>\<open>COMMIT\<close> makes it the database. Any failure leaves the database as it was.\<close>
  "commit e s =
     (case flush e 0 (session_new s) (db s) of
        Inl err \<Rightarrow> (Some err, s)
      | Inr d \<Rightarrow>
          if commit_fault e then (Some OperationalError, s)
          else (None, s\<lparr>db := d, session_new := []\<rparr>))"

definition close :: stmt where
  "close s = (None, s\<lparr>session_open := False, session_new := []\<rparr>)"

section \<open>The script\<close>

text \<open>
  The script is a straight line of statements with no exception handler: the first
  statement that raises ends it, in the state reached so far.
\<close>

fun run :: "stmt list \<Rightarrow> stmt" where
  "run [] s = (None, s)"
| "run (c # cs) s = (case c s of (Some e, s') \<Rightarrow> (Some e, s') | (None, s') \<Rightarrow> run cs s')"

definition create_the_database :: "env \<Rightarrow> stmt list" where
  "create_the_database e = [create_all e Base_metadata]"

definition establishing_session :: "stmt list" where
  "establishing_session = [Session]"

definition insert_sample_data :: "env \<Rightarrow> stmt list" where
  "insert_sample_data e =
     [assign ''customers'' (customers e), assign ''products'' (products e),
      assign ''orders'' (orders e),
      assign ''order_details'' (order_details e), assign ''addresses'' (addresses e),
      assign ''suppliers'' (suppliers e), assign ''inventory'' (inventory e),
      assign ''payments'' (payments e), assign ''categories'' (categories e),
      assign ''product_categories'' (product_categories e), assign ''employees'' (employees e),
      assign ''shipments'' (shipments e)]"

definition add_data_to_the_session :: "stmt list" where
  "add_data_to_the_session =
     [add_all ''customers'', add_all ''products'', add_all ''orders'',
      add_all ''order_details'', add_all ''addresses'', add_all ''suppliers'',
      add_all ''inventory'', add_all ''payments'', add_all ''categories'',
      add_all ''product_categories'', add_all ''employees'', add_all ''shipments'']"

definition before_commit :: "env \<Rightarrow> stmt list" where
  "before_commit e =
     create_the_database e @ establishing_session @ insert_sample_data e @
       add_data_to_the_session"

definition main :: "env \<Rightarrow> stmt" where
  "main e = run (before_commit e @ [commit e, close])"

definition start :: "database \<Rightarrow> state" where
  \<comment> \<open>The state the script starts in, on a target holding the given tables.\<close>
  "start d = \<lparr>db = d, session_open = False, session_new = [], globals = []\<rparr>"

definition fresh :: database where
  "fresh = []"

section \<open>What the claims are stated with\<close>

definition records :: "(error + entity) list \<Rightarrow> entity list" where
  \<comment> \<open>The records of a seed list, once its constructor calls have run.\<close>
  "records xs = (case evaluate xs of Inl e \<Rightarrow> [] | Inr vs \<Rightarrow> vs)"

definition seed_lists :: "env \<Rightarrow> (error + entity) list list" where
  \<comment> \<open>The twelve seed lists, in the order the script builds them.\<close>
  "seed_lists e = [customers e, products e, orders e, order_details e, addresses e, suppliers e,
     inventory e, payments e, categories e, product_categories e, employees e, shipments e]"

definition seed_records :: "env \<Rightarrow> entity list" where
  "seed_records e = concat (map records (seed_lists e))"

definition empty_tables :: "model list \<Rightarrow> database" where
  "empty_tables ms = map (\<lambda>m. (tablename m, \<lparr>schema = columns m, rows = []\<rparr>)) ms"

definition calm :: "datetime \<Rightarrow> env" where
  \<comment> \<open>An environment in which the database opens and the storage rejects nothing. Of the
      keywords that are no columns it accepts four names that every class of the script has,
      and raises \<^verbatim>\<open>TypeError\<close> for the others.\<close>
  "calm t = \<lparr>now = t,
     other_keyword = (\<lambda>c k v.
       if k \<in> set [''__tablename__'', ''__doc__'', ''metadata'', ''registry''] then None
       else Some TypeError),
     connect_fault = False, ddl_fault = None, dml_fault = None, commit_fault = False\<rparr>"

definition rejecting :: "datetime \<Rightarrow> env" where
  \<comment> \<open>As \<open>calm\<close>, but the storage rejects the first \<^verbatim>\<open>INSERT\<close>.\<close>
  "rejecting t = (calm t)\<lparr>dml_fault := Some 0\<rparr>"

definition table_rows :: "database \<Rightarrow> string \<Rightarrow> row list" where
  "table_rows d n = (case map_of d n of None \<Rightarrow> [] | Some t \<Rightarrow> rows t)"

definition total_rows :: "database \<Rightarrow> nat" where
  "total_rows d = sum_list (map (\<lambda>(n, t). length (rows t)) d)"

definition required :: "model \<Rightarrow> string list" where
  \<comment> \<open>The columns a new record must give a value: declared not nullable, and not the
      primary key, which the database assigns.\<close>
  "required m = map fst (filter (\<lambda>(k, c). \<not> is_nullable c \<and> \<not> primary_key c) (columns m))"

definition parents :: "model \<Rightarrow> string list" where
  \<comment> \<open>The tables the foreign keys of a class point to.\<close>
  "parents m =
     concat (map (\<lambda>(k, c). case foreign_key c of None \<Rightarrow> [] | Some target \<Rightarrow> [fk_table target])
       (columns m))"

definition precedes :: "string \<Rightarrow> string \<Rightarrow> string list \<Rightarrow> bool" where
  \<comment> \<open>\<open>p\<close> occurs in the sequence, and never at or after the first \<open>c\<close>.\<close>
  "precedes p c q = (p \<in> set q \<and> p \<notin> set (dropWhile (\<lambda>n. n \<noteq> c) q))"

definition topological :: "model list \<Rightarrow> string list \<Rightarrow> bool" where
  "topological ms q = list_all (\<lambda>m. list_all (\<lambda>p. precedes p (tablename m) q) (parents m)) ms"

definition submitted :: "env \<Rightarrow> state \<Rightarrow> entity list" where
  \<comment> \<open>The records queued in the session when the script reaches \<^verbatim>\<open>session.commit()\<close>.\<close>
  "submitted e s =
     session_new
       (snd (run (establishing_session @ insert_sample_data e @ add_data_to_the_session) s))"

definition field :: "row \<Rightarrow> string \<Rightarrow> pyval" where
  "field r k = (case map_of r k of None \<Rightarrow> PyNone | Some v \<Rightarrow> v)"

definition fk_column :: "string \<Rightarrow> string" where
  \<comment> \<open>The column of a target written \<^verbatim>\<open>'table.column'\<close>.\<close>
  "fk_column target = drop 1 (dropWhile (\<lambda>ch. ch \<noteq> CHR ''.'') target)"

definition ordinals_exist :: "entity list \<Rightarrow> bool" where
  \<comment> \<open>Every foreign-key attribute is an integer \<open>i\<close> with \<open>1 \<le> i\<close>, at most the number of
      records of the parent table among the given ones.\<close>
  "ordinals_exist xs =
     list_all (\<lambda>x. list_all (\<lambda>(k, c).
         case foreign_key c of
           None \<Rightarrow> True
         | Some target \<Rightarrow>
             (case attr x k of
                PyInt i \<Rightarrow>
                  1 \<le> i \<and> i \<le> int (length (filter (\<lambda>y. tablename (cls y) = fk_table target) xs))
              | _ \<Rightarrow> False))
       (columns (cls x))) xs"

definition references_exist :: "database \<Rightarrow> bool" where
  \<comment> \<open>Every foreign-key value of every row is the key of a row of the parent table.\<close>
  "references_exist d =
     list_all (\<lambda>(n, t). list_all (\<lambda>(k, c).
         case foreign_key c of
           None \<Rightarrow> True
         | Some target \<Rightarrow>
             list_all (\<lambda>r. field r k \<in>
                 set (map (\<lambda>p. field p (fk_column target)) (table_rows d (fk_table target))))
               (rows t))
       (schema t)) d"

definition defaulted :: "model \<Rightarrow> string list" where
  \<comment> \<open>The columns that fall back on the clock when a record gives no value.\<close>
  "defaulted m = map fst (filter (\<lambda>(k, c). default c \<noteq> None) (columns m))"

definition conflicting_customers :: table where
  \<comment> \<open>A \<^verbatim>\<open>customers\<close> table made beforehand with other column types.\<close>
  "conflicting_customers =
     \<lparr>schema = [(''id'', (Column String)\<lparr>primary_key := True\<rparr>), (''name'', Column Integer)],
      rows = []\<rparr>"

definition conflicting :: database where
  "conflicting = [(''customers'', conflicting_customers)]"

section \<open>Evaluating the declarations and the script\<close>

lemma tablename_simps:
  "tablename Customer = ''customers''" "tablename Product = ''products''"
  "tablename Order = ''orders''" "tablename OrderDetail = ''order_details''"
  "tablename Address = ''addresses''" "tablename Supplier = ''suppliers''"
  "tablename Inventory = ''inventory''" "tablename Payment = ''payments''"
  "tablename Category = ''categories''" "tablename ProductCategory = ''product_categories''"
  "tablename Employee = ''employees''" "tablename Shipment = ''shipments''"
  by (simp_all add: Customer_def Product_def Order_def OrderDetail_def Address_def Supplier_def
      Inventory_def Payment_def Category_def ProductCategory_def Employee_def Shipment_def)

lemma column_names:
  "map fst (columns Customer) = [''id'', ''name'', ''email'', ''phone_number'']"
  "map fst (columns Product) = [''id'', ''name'', ''description'', ''price'']"
  "map fst (columns Order) = [''id'', ''customer_id'', ''order_date'']"
  "map fst (columns OrderDetail) = [''id'', ''order_id'', ''product_id'', ''quantity'']"
  "map fst (columns Address) =
     [''id'', ''customer_id'', ''address_line1'', ''address_line2'', ''city'', ''postal_code'']"
  "map fst (columns Supplier) = [''id'', ''name'', ''contact_name'']"
  "map fst (columns Inventory) = [''id'', ''product_id'', ''supplier_id'', ''quantity'']"
  "map fst (columns Payment) = [''id'', ''customer_id'', ''amount'', ''payment_date'']"
  "map fst (columns Category) = [''id'', ''name'']"
  "map fst (columns ProductCategory) = [''id'', ''product_id'', ''category_id'']"
  "map fst (columns Employee) = [''id'', ''name'', ''hire_date'']"
  "map fst (columns Shipment) = [''id'', ''order_id'', ''ship_date'']"
  by (simp_all add: Customer_def Product_def Order_def OrderDetail_def Address_def Supplier_def
      Inventory_def Payment_def Category_def ProductCategory_def Employee_def Shipment_def)

lemmas seed_defs = customers_def products_def orders_def order_details_def addresses_def
  suppliers_def inventory_def payments_def categories_def product_categories_def
  employees_def shipments_def

lemmas model_defs = Customer_def Product_def Order_def OrderDetail_def Address_def Supplier_def
  Inventory_def Payment_def Category_def ProductCategory_def Employee_def Shipment_def

lemma create_tables_keeps:
  "create_tables e k ms d = (r, d') \<Longrightarrow> map_of d n = Some t \<Longrightarrow> map_of d' n = Some t"
proof (induction ms arbitrary: k d)
  case Nil
  then show ?case by simp
next
  case (Cons m ms)
  show ?case
  proof (cases "map_of d (tablename m) \<noteq> None")
    case True
    with Cons.prems have "create_tables e k ms d = (r, d')" by simp
    then show ?thesis using Cons.IH Cons.prems(2) by blast
  next
    case absent: False
    show ?thesis
    proof (cases "ddl_fault e = Some k")
      case True
      with absent Cons.prems show ?thesis by simp
    next
      case False
      let ?d = "d @ [(tablename m, \<lparr>schema = columns m, rows = []\<rparr>)]"
      from absent False Cons.prems have "create_tables e (Suc k) ms ?d = (r, d')" by simp
      moreover from Cons.prems(2) have "map_of ?d n = Some t" by (simp add: map_add_Some_iff)
      ultimately show ?thesis using Cons.IH by blast
    qed
  qed
qed

lemma create_tables_total:
  "create_tables e k ms d = (r, d') \<Longrightarrow> total_rows d' = total_rows d"
proof (induction ms arbitrary: k d)
  case Nil
  then show ?case by simp
next
  case (Cons m ms)
  show ?case
  proof (cases "map_of d (tablename m) \<noteq> None")
    case True
    with Cons.prems have "create_tables e k ms d = (r, d')" by simp
    then show ?thesis using Cons.IH by blast
  next
    case absent: False
    show ?thesis
    proof (cases "ddl_fault e = Some k")
      case True
      with absent Cons.prems show ?thesis by simp
    next
      case False
      let ?d = "d @ [(tablename m, \<lparr>schema = columns m, rows = []\<rparr>)]"
      from absent False Cons.prems have "create_tables e (Suc k) ms ?d = (r, d')" by simp
      then have "total_rows d' = total_rows ?d" using Cons.IH by blast
      also have "total_rows ?d = total_rows d" by (simp add: total_rows_def)
      finally show ?thesis .
    qed
  qed
qed

lemma create_tables_table_rows:
  "create_tables e k ms d = (r, d') \<Longrightarrow> table_rows d' n = table_rows d n"
proof (induction ms arbitrary: k d)
  case Nil
  then show ?case by simp
next
  case (Cons m ms)
  show ?case
  proof (cases "map_of d (tablename m) \<noteq> None")
    case True
    with Cons.prems have "create_tables e k ms d = (r, d')" by simp
    then show ?thesis using Cons.IH by blast
  next
    case absent: False
    show ?thesis
    proof (cases "ddl_fault e = Some k")
      case True
      with absent Cons.prems show ?thesis by simp
    next
      case False
      let ?d = "d @ [(tablename m, \<lparr>schema = columns m, rows = []\<rparr>)]"
      from absent False Cons.prems have "create_tables e (Suc k) ms ?d = (r, d')" by simp
      then have "table_rows d' n = table_rows ?d n" using Cons.IH by blast
      also from absent have "table_rows ?d n = table_rows d n"
        by (simp add: table_rows_def map_add_def split: option.splits)
      finally show ?thesis .
    qed
  qed
qed

lemma create_tables_present:
  "list_all (\<lambda>m. map_of d (tablename m) \<noteq> None) ms \<Longrightarrow> create_tables e k ms d = (None, d)"
  by (induction ms) simp_all

lemma create_tables_error:
  "create_tables e k ms d = (r, d') \<Longrightarrow> r = None \<or> r = Some OperationalError"
proof (induction ms arbitrary: k d)
  case Nil
  then show ?case by simp
next
  case (Cons m ms)
  then show ?case by (auto split: if_splits)
qed

lemma create_tables_calm:
  "ddl_fault e' = None \<Longrightarrow> create_tables e k ms d = (None, d') \<Longrightarrow>
   create_tables e' k' ms d = (None, d')"
proof (induction ms arbitrary: k k' d)
  case Nil
  then show ?case by simp
next
  case (Cons m ms)
  then show ?case by (auto split: if_splits)
qed

lemma insert_row_clock: "now e' = now e \<Longrightarrow> insert_row e' x d = insert_row e x d"
proof -
  assume "now e' = now e"
  then have clock: "column_value e' = column_value e"
    by (intro ext) (simp add: column_value_def split: option.split default_rule.split)
  show ?thesis unfolding insert_row_def clock by (rule refl)
qed

lemma flush_calm:
  "now e' = now e \<Longrightarrow> dml_fault e' = None \<Longrightarrow> flush e k xs d = Inr d' \<Longrightarrow>
   flush e' k' xs d = Inr d'"
proof (induction xs arbitrary: k k' d)
  case Nil
  then show ?case by simp
next
  case (Cons x xs)
  show ?case
  proof (cases "dml_fault e = Some k")
    case True
    with Cons.prems(3) show ?thesis by simp
  next
    case nofault: False
    show ?thesis
    proof (cases "insert_row e x d")
      case (Inl err)
      with nofault Cons.prems(3) show ?thesis by simp
    next
      case (Inr d1)
      with nofault Cons.prems(3) have rest: "flush e (Suc k) xs d1 = Inr d'" by simp
      from Inr insert_row_clock[OF Cons.prems(1)] have "insert_row e' x d = Inr d1" by simp
      moreover from rest Cons.prems(1,2) have "flush e' (Suc k') xs d1 = Inr d'"
        by (rule Cons.IH[rotated 2])
      ultimately show ?thesis using Cons.prems(2) by simp
    qed
  qed
qed

lemma run_append:
  "run (cs @ cs') s =
     (case run cs s of (Some err, s') \<Rightarrow> (Some err, s') | (None, s') \<Rightarrow> run cs' s')"
proof (induction cs arbitrary: s)
  case Nil
  then show ?case by simp
next
  case (Cons c cs)
  then show ?case by (cases "c s") (simp split: option.splits)
qed

lemma create_tables_fresh:
  "ddl_fault e = None \<Longrightarrow>
   create_tables e 0 Base_metadata fresh = (None, empty_tables Base_metadata)"
  by (simp add: Base_metadata_def fresh_def empty_tables_def tablename_simps)

lemma evaluate_seed_lists:
  "evaluate (customers e) = Inr (records (customers e))"
  "evaluate (products e) = Inr (records (products e))"
  "evaluate (orders e) = Inr (records (orders e))"
  "evaluate (order_details e) = Inr (records (order_details e))"
  "evaluate (addresses e) = Inr (records (addresses e))"
  "evaluate (suppliers e) = Inr (records (suppliers e))"
  "evaluate (inventory e) = Inr (records (inventory e))"
  "evaluate (payments e) = Inr (records (payments e))"
  "evaluate (categories e) = Inr (records (categories e))"
  "evaluate (product_categories e) = Inr (records (product_categories e))"
  "evaluate (employees e) = Inr (records (employees e))"
  "evaluate (shipments e) = Inr (records (shipments e))"
  by (simp_all add: records_def seed_defs new_def column_names)

lemma sample_data_queued:
  assumes "run (insert_sample_data e @ add_data_to_the_session) s = (r, s')"
  shows "r = None \<and> db s' = db s \<and> session_open s' = session_open s \<and>
    session_new s' = session_new s @ seed_records e"
  using assms
  by (auto simp: insert_sample_data_def add_data_to_the_session_def assign_def add_all_def
      evaluate_seed_lists seed_records_def seed_lists_def)

lemma create_all_cases:
  assumes "create_all e ms s = (r, s1)"
  shows "(connect_fault e \<and> r = Some OperationalError \<and> s1 = s) \<or>
    (\<not> connect_fault e \<and> create_tables e 0 ms (db s) = (r, db s1) \<and> s1 = s\<lparr>db := db s1\<rparr>)"
  using assms by (auto simp: create_all_def split: if_splits prod.splits)

lemma run_schema_and_session:
  "run (create_the_database e @ establishing_session) s =
     (case create_all e Base_metadata s of
        (Some err, s1) \<Rightarrow> (Some err, s1)
      | (None, s1) \<Rightarrow> (None, s1\<lparr>session_open := True, session_new := []\<rparr>))"
  by (simp add: create_the_database_def establishing_session_def Session_def
      split: prod.split option.split)

lemma run_commit_close:
  "run [commit e, close] s =
     (case commit e s of
        (Some err, s') \<Rightarrow> (Some err, s')
      | (None, s') \<Rightarrow> (None, s'\<lparr>session_open := False, session_new := []\<rparr>))"
  by (simp add: close_def split: prod.split option.split)

lemma main_unfold:
  "main e s =
     (case run (create_the_database e @ establishing_session) s of
        (Some err, s1) \<Rightarrow> (Some err, s1)
      | (None, s1) \<Rightarrow>
          (case run (insert_sample_data e @ add_data_to_the_session) s1 of
             (Some err, s3) \<Rightarrow> (Some err, s3)
           | (None, s3) \<Rightarrow> run [commit e, close] s3))"
proof -
  have parts: "main e = run ((create_the_database e @ establishing_session) @
      (insert_sample_data e @ add_data_to_the_session) @ [commit e, close])"
    by (simp add: main_def before_commit_def)
  show ?thesis by (simp only: parts run_append)
qed

lemma main_outcome:
  assumes run: "main e (start fresh) = (r, s)"
  shows "(r = Some OperationalError \<and> fst (create_all e Base_metadata (start fresh)) \<noteq> None \<and>
          \<not> session_open s \<and> total_rows (db s) = 0)
       \<or> (r \<noteq> None \<and> fst (create_all e Base_metadata (start fresh)) = None \<and>
          session_open s \<and> db s = empty_tables Base_metadata)
       \<or> (r = None \<and> fst (create_all e Base_metadata (start fresh)) = None \<and>
          \<not> session_open s \<and> session_new s = [] \<and>
          flush (calm (now e)) 0 (seed_records e) (empty_tables Base_metadata) = Inr (db s))"
proof -
  obtain r0 d0 where ct: "create_tables e 0 Base_metadata fresh = (r0, d0)"
    by (cases "create_tables e 0 Base_metadata fresh")
  show ?thesis
  proof (cases "connect_fault e")
    case True
    then have closed: "create_all e Base_metadata (start fresh) =
        (Some OperationalError, start fresh)"
      by (simp add: create_all_def)
    with run have "r = Some OperationalError" "s = start fresh"
      by (simp_all add: main_unfold run_schema_and_session)
    with closed show ?thesis by (simp add: start_def fresh_def total_rows_def)
  next
    case connected: False
    with ct have ca: "create_all e Base_metadata (start fresh) =
        (r0, (start fresh)\<lparr>db := d0\<rparr>)"
      by (simp add: create_all_def start_def)
    show ?thesis
    proof (cases r0)
      case (Some err)
      with ca run have out: "r = Some err" "s = (start fresh)\<lparr>db := d0\<rparr>"
        by (simp_all add: main_unfold run_schema_and_session)
      from ct Some have "err = OperationalError" using create_tables_error by fastforce
      moreover from ct have "total_rows d0 = 0"
        using create_tables_total by (fastforce simp: fresh_def total_rows_def)
      ultimately show ?thesis using out ca Some by (simp add: start_def)
    next
      case None
      have "create_tables (calm (now e)) 0 Base_metadata fresh = (None, d0)"
        using create_tables_calm[of "calm (now e)" e 0 Base_metadata fresh d0 0] ct None
        by (simp add: calm_def)
      then have d0: "d0 = empty_tables Base_metadata"
        by (simp add: create_tables_fresh calm_def)
      define s2 where "s2 = (start fresh)\<lparr>db := d0, session_open := True, session_new := []\<rparr>"
      obtain r3 s3 where q: "run (insert_sample_data e @ add_data_to_the_session) s2 = (r3, s3)"
        by (cases "run (insert_sample_data e @ add_data_to_the_session) s2")
      from sample_data_queued[OF q] have s3:
        "r3 = None" "db s3 = d0" "session_open s3" "session_new s3 = seed_records e"
        by (simp_all add: s2_def start_def)
      from ca None q s3(1) have m: "main e (start fresh) = run [commit e, close] s3"
        by (simp add: main_unfold run_schema_and_session s2_def)
      show ?thesis
      proof (cases "flush e 0 (seed_records e) d0")
        case (Inl err)
        with s3 have "commit e s3 = (Some err, s3)" by (simp add: commit_def)
        then have "run [commit e, close] s3 = (Some err, s3)" by simp
        with m run have "r = Some err" "s = s3" by simp_all
        with s3 d0 ca None show ?thesis by simp
      next
        case (Inr d)
        show ?thesis
        proof (cases "commit_fault e")
          case True
          with Inr s3 have "commit e s3 = (Some OperationalError, s3)" by (simp add: commit_def)
          then have "run [commit e, close] s3 = (Some OperationalError, s3)" by simp
          with m run have "r = Some OperationalError" "s = s3" by simp_all
          with s3 d0 ca None show ?thesis by simp
        next
          case False
          with Inr s3 have "commit e s3 = (None, s3\<lparr>db := d, session_new := []\<rparr>)"
            by (simp add: commit_def)
          then have "run [commit e, close] s3 =
              (None, s3\<lparr>db := d, session_new := [], session_open := False\<rparr>)"
            by (simp add: close_def)
          with m run have out: "r = None"
            "s = s3\<lparr>db := d, session_new := [], session_open := False\<rparr>"
            by simp_all
          have "flush (calm (now e)) 0 (seed_records e) d0 = Inr d"
            using flush_calm[of "calm (now e)" e 0 "seed_records e" d0 d 0] Inr
            by (simp add: calm_def)
          with out d0 ca None show ?thesis by simp
        qed
      qed
    qed
  qed
qed

lemma seed_records_eq: "seed_records e =
  [\<lparr>cls = Customer, attrs = [(''name'', PyStr ''John Doe''),
      (''email'', PyStr ''john.doe@example.com''), (''phone_number'', PyStr ''123456789'')]\<rparr>,
   \<lparr>cls = Customer, attrs = [(''name'', PyStr ''Jane Smith''),
      (''email'', PyStr ''jane.smith@example.com''), (''phone_number'', PyStr ''987654321'')]\<rparr>,
   \<lparr>cls = Product, attrs = [(''name'', PyStr ''Widget''),
      (''description'', PyStr ''A useful widget''), (''price'', PyFloat 1999 2)]\<rparr>,
   \<lparr>cls = Product, attrs = [(''name'', PyStr ''Gadget''),
      (''description'', PyStr ''An awesome gadget''), (''price'', PyFloat 2999 2)]\<rparr>,
   \<lparr>cls = Order, attrs = [(''customer_id'', PyInt 1),
      (''order_date'', PyDatetime (Datetime 2023 1 1 0 0 0 0))]\<rparr>,
   \<lparr>cls = Order, attrs = [(''customer_id'', PyInt 2),
      (''order_date'', PyDatetime (Datetime 2023 2 1 0 0 0 0))]\<rparr>,
   \<lparr>cls = OrderDetail, attrs = [(''order_id'', PyInt 1), (''product_id'', PyInt 1),
      (''quantity'', PyInt 5)]\<rparr>,
   \<lparr>cls = OrderDetail, attrs = [(''order_id'', PyInt 2), (''product_id'', PyInt 2),
      (''quantity'', PyInt 3)]\<rparr>,
   \<lparr>cls = Address, attrs = [(''customer_id'', PyInt 1), (''address_line1'', PyStr ''123 Elm St''),
      (''city'', PyStr ''Somewhere''), (''postal_code'', PyStr ''12345'')]\<rparr>,
   \<lparr>cls = Address, attrs = [(''customer_id'', PyInt 2),
      (''address_line1'', PyStr ''456 Maple Ave''), (''city'', PyStr ''Anywhere''),
      (''postal_code'', PyStr ''67890'')]\<rparr>,
   \<lparr>cls = Supplier, attrs = [(''name'', PyStr ''ABC Supplies''),
      (''contact_name'', PyStr ''Alice'')]\<rparr>,
   \<lparr>cls = Supplier, attrs = [(''name'', PyStr ''XYZ Wholesale''),
      (''contact_name'', PyStr ''Bob'')]\<rparr>,
   \<lparr>cls = Inventory, attrs = [(''product_id'', PyInt 1), (''supplier_id'', PyInt 1),
      (''quantity'', PyInt 100)]\<rparr>,
   \<lparr>cls = Inventory, attrs = [(''product_id'', PyInt 2), (''supplier_id'', PyInt 2),
      (''quantity'', PyInt 200)]\<rparr>,
   \<lparr>cls = Payment, attrs = [(''customer_id'', PyInt 1), (''amount'', PyFloat 9995 2),
      (''payment_date'', PyDatetime (Datetime 2023 1 15 0 0 0 0))]\<rparr>,
   \<lparr>cls = Payment, attrs = [(''customer_id'', PyInt 2), (''amount'', PyFloat 8997 2),
      (''payment_date'', PyDatetime (Datetime 2023 2 16 0 0 0 0))]\<rparr>,
   \<lparr>cls = Category, attrs = [(''name'', PyStr ''Technology'')]\<rparr>,
   \<lparr>cls = Category, attrs = [(''name'', PyStr ''Household'')]\<rparr>,
   \<lparr>cls = ProductCategory, attrs = [(''product_id'', PyInt 1), (''category_id'', PyInt 1)]\<rparr>,
   \<lparr>cls = ProductCategory, attrs = [(''product_id'', PyInt 2), (''category_id'', PyInt 2)]\<rparr>,
   \<lparr>cls = Employee, attrs = [(''name'', PyStr ''Manager Mike''),
      (''hire_date'', PyDatetime (Datetime 2022 1 1 0 0 0 0))]\<rparr>,
   \<lparr>cls = Employee, attrs = [(''name'', PyStr ''Worker Wanda''),
      (''hire_date'', PyDatetime (Datetime 2022 2 1 0 0 0 0))]\<rparr>,
   \<lparr>cls = Shipment, attrs = [(''order_id'', PyInt 1),
      (''ship_date'', PyDatetime (Datetime 2023 1 10 0 0 0 0))]\<rparr>,
   \<lparr>cls = Shipment, attrs = [(''order_id'', PyInt 2),
      (''ship_date'', PyDatetime (Datetime 2023 2 10 0 0 0 0))]\<rparr>]"
  by (simp add: seed_records_def seed_lists_def records_def seed_defs new_def column_names
      datetime_datetime_def)

lemma flush_seed_records:
  "dml_fault e = None \<Longrightarrow> flush e 0 (seed_records e') (empty_tables Base_metadata) = Inr
   [(''customers'', \<lparr>schema = columns Customer, rows =
      [[(''id'', PyInt 1), (''name'', PyStr ''John Doe''),
        (''email'', PyStr ''john.doe@example.com''), (''phone_number'', PyStr ''123456789'')],
       [(''id'', PyInt 2), (''name'', PyStr ''Jane Smith''),
        (''email'', PyStr ''jane.smith@example.com''), (''phone_number'', PyStr ''987654321'')]]\<rparr>),
    (''products'', \<lparr>schema = columns Product, rows =
      [[(''id'', PyInt 1), (''name'', PyStr ''Widget''),
        (''description'', PyStr ''A useful widget''), (''price'', PyFloat 1999 2)],
       [(''id'', PyInt 2), (''name'', PyStr ''Gadget''),
        (''description'', PyStr ''An awesome gadget''), (''price'', PyFloat 2999 2)]]\<rparr>),
    (''orders'', \<lparr>schema = columns Order, rows =
      [[(''id'', PyInt 1), (''customer_id'', PyInt 1),
        (''order_date'', PyDatetime (Datetime 2023 1 1 0 0 0 0))],
       [(''id'', PyInt 2), (''customer_id'', PyInt 2),
        (''order_date'', PyDatetime (Datetime 2023 2 1 0 0 0 0))]]\<rparr>),
    (''order_details'', \<lparr>schema = columns OrderDetail, rows =
      [[(''id'', PyInt 1), (''order_id'', PyInt 1), (''product_id'', PyInt 1),
        (''quantity'', PyInt 5)],
       [(''id'', PyInt 2), (''order_id'', PyInt 2), (''product_id'', PyInt 2),
        (''quantity'', PyInt 3)]]\<rparr>),
    (''addresses'', \<lparr>schema = columns Address, rows =
      [[(''id'', PyInt 1), (''customer_id'', PyInt 1),
        (''address_line1'', PyStr ''123 Elm St''), (''address_line2'', PyNone),
        (''city'', PyStr ''Somewhere''), (''postal_code'', PyStr ''12345'')],
       [(''id'', PyInt 2), (''customer_id'', PyInt 2),
        (''address_line1'', PyStr ''456 Maple Ave''), (''address_line2'', PyNone),
        (''city'', PyStr ''Anywhere''), (''postal_code'', PyStr ''67890'')]]\<rparr>),
    (''suppliers'', \<lparr>schema = columns Supplier, rows =
      [[(''id'', PyInt 1), (''name'', PyStr ''ABC Supplies''), (''contact_name'', PyStr ''Alice'')],
       [(''id'', PyInt 2), (''name'', PyStr ''XYZ Wholesale''), (''contact_name'', PyStr ''Bob'')]]\<rparr>),
    (''inventory'', \<lparr>schema = columns Inventory, rows =
      [[(''id'', PyInt 1), (''product_id'', PyInt 1), (''supplier_id'', PyInt 1),
        (''quantity'', PyInt 100)],
       [(''id'', PyInt 2), (''product_id'', PyInt 2), (''supplier_id'', PyInt 2),
        (''quantity'', PyInt 200)]]\<rparr>),
    (''payments'', \<lparr>schema = columns Payment, rows =
      [[(''id'', PyInt 1), (''customer_id'', PyInt 1), (''amount'', PyFloat 9995 2),
        (''payment_date'', PyDatetime (Datetime 2023 1 15 0 0 0 0))],
       [(''id'', PyInt 2), (''customer_id'', PyInt 2), (''amount'', PyFloat 8997 2),
        (''payment_date'', PyDatetime (Datetime 2023 2 16 0 0 0 0))]]\<rparr>),
    (''categories'', \<lparr>schema = columns Category, rows =
      [[(''id'', PyInt 1), (''name'', PyStr ''Technology'')],
       [(''id'', PyInt 2), (''name'', PyStr ''Household'')]]\<rparr>),
    (''product_categories'', \<lparr>schema = columns ProductCategory, rows =
      [[(''id'', PyInt 1), (''product_id'', PyInt 1), (''category_id'', PyInt 1)],
       [(''id'', PyInt 2), (''product_id'', PyInt 2), (''category_id'', PyInt 2)]]\<rparr>),
    (''employees'', \<lparr>schema = columns Employee, rows =
      [[(''id'', PyInt 1), (''name'', PyStr ''Manager Mike''),
        (''hire_date'', PyDatetime (Datetime 2022 1 1 0 0 0 0))],
       [(''id'', PyInt 2), (''name'', PyStr ''Worker Wanda''),
        (''hire_date'', PyDatetime (Datetime 2022 2 1 0 0 0 0))]]\<rparr>),
    (''shipments'', \<lparr>schema = columns Shipment, rows =
      [[(''id'', PyInt 1), (''order_id'', PyInt 1),
        (''ship_date'', PyDatetime (Datetime 2023 1 10 0 0 0 0))],
       [(''id'', PyInt 2), (''order_id'', PyInt 2),
        (''ship_date'', PyDatetime (Datetime 2023 2 10 0 0 0 0))]]\<rparr>)]"
  by (simp add: seed_records_eq empty_tables_def Base_metadata_def tablename_simps
      insert_row_def column_value_def attr_def next_id_def rowid_def has_value_def store_def
      is_nullable_def Let_def model_defs Column_def ColumnFK_def)

lemma main_success:
  assumes "main e (start fresh) = (None, s)"
  shows "flush (calm (now e)) 0 (seed_records e) (empty_tables Base_metadata) = Inr (db s)"
    and "\<not> session_open s"
  using main_outcome[OF assms] by simp_all

lemma main_calm: "main (calm t) (start fresh) = (None, snd (main (calm t) (start fresh)))"
proof -
  let ?e = "calm t"
  let ?s2 = "(start fresh)\<lparr>db := empty_tables Base_metadata, session_open := True,
      session_new := []\<rparr>"
  have ca: "create_all ?e Base_metadata (start fresh) =
      (None, (start fresh)\<lparr>db := empty_tables Base_metadata\<rparr>)"
    by (simp add: create_all_def start_def create_tables_fresh[unfolded fresh_def] calm_def
        fresh_def)
  obtain r3 s3 where q: "run (insert_sample_data ?e @ add_data_to_the_session) ?s2 = (r3, s3)"
    by (cases "run (insert_sample_data ?e @ add_data_to_the_session) ?s2")
  from sample_data_queued[OF q] have s3:
    "r3 = None" "db s3 = empty_tables Base_metadata" "session_new s3 = seed_records ?e"
    by (simp_all add: start_def)
  obtain d where fl: "flush ?e 0 (seed_records ?e) (empty_tables Base_metadata) = Inr d"
    using flush_seed_records[of ?e ?e] by (simp add: calm_def)
  with s3 have "commit ?e s3 = (None, s3\<lparr>db := d, session_new := []\<rparr>)"
    by (simp add: commit_def calm_def)
  then have "fst (run [commit ?e, close] s3) = None" by (simp add: close_def)
  with ca q s3(1) have "fst (main ?e (start fresh)) = None"
    by (simp add: main_unfold run_schema_and_session)
  then show ?thesis by (metis prod.collapse)
qed

lemma main_insert_rejected:
  assumes "\<not> connect_fault e" and "ddl_fault e = None" and "dml_fault e = Some 0"
  shows "fst (main e (start fresh)) = Some OperationalError"
    and "session_open (snd (main e (start fresh)))"
    and "db (snd (main e (start fresh))) = empty_tables Base_metadata"
proof -
  let ?s2 = "(start fresh)\<lparr>db := empty_tables Base_metadata, session_open := True,
      session_new := []\<rparr>"
  have ca: "create_all e Base_metadata (start fresh) =
      (None, (start fresh)\<lparr>db := empty_tables Base_metadata\<rparr>)"
    using assms(1,2)
    by (simp add: create_all_def start_def create_tables_fresh[unfolded fresh_def] fresh_def)
  obtain r3 s3 where q: "run (insert_sample_data e @ add_data_to_the_session) ?s2 = (r3, s3)"
    by (cases "run (insert_sample_data e @ add_data_to_the_session) ?s2")
  from sample_data_queued[OF q] have s3:
    "r3 = None" "db s3 = empty_tables Base_metadata" "session_new s3 = seed_records e"
    "session_open s3"
    by (simp_all add: start_def)
  have "flush e 0 (seed_records e) (empty_tables Base_metadata) = Inl OperationalError"
    using assms(3) by (simp add: seed_records_eq)
  with s3 have "commit e s3 = (Some OperationalError, s3)" by (simp add: commit_def)
  then have "run [commit e, close] s3 = (Some OperationalError, s3)" by simp
  with ca q s3(1) have m: "main e (start fresh) = (Some OperationalError, s3)"
    by (simp add: main_unfold run_schema_and_session)
  from m show "fst (main e (start fresh)) = Some OperationalError" by simp
  from m s3 show "session_open (snd (main e (start fresh)))" by simp
  from m s3 show "db (snd (main e (start fresh))) = empty_tables Base_metadata" by simp
qed

lemma create_tables_exists:
  "create_tables e k ms d = (None, d') \<Longrightarrow> m \<in> set ms \<Longrightarrow> map_of d' (tablename m) \<noteq> None"
proof (induction ms arbitrary: k d)
  case Nil
  then show ?case by simp
next
  case (Cons a ms)
  let ?d = "d @ [(tablename a, \<lparr>schema = columns a, rows = []\<rparr>)]"
  from Cons.prems(1) have step:
    "(map_of d (tablename a) \<noteq> None \<and> create_tables e k ms d = (None, d')) \<or>
     (map_of d (tablename a) = None \<and> create_tables e (Suc k) ms ?d = (None, d'))"
    by (cases "map_of d (tablename a) = None"; cases "ddl_fault e = Some k") simp_all
  show ?case
  proof (cases "m = a")
    case True
    from step show ?thesis
    proof
      assume h: "map_of d (tablename a) \<noteq> None \<and> create_tables e k ms d = (None, d')"
      then obtain t where "map_of d (tablename a) = Some t" by blast
      with h have "map_of d' (tablename a) = Some t" using create_tables_keeps by blast
      with True show ?thesis by simp
    next
      assume h: "map_of d (tablename a) = None \<and> create_tables e (Suc k) ms ?d = (None, d')"
      then have "map_of ?d (tablename a) = Some \<lparr>schema = columns a, rows = []\<rparr>"
        by (simp add: map_add_def)
      with h have "map_of d' (tablename a) = Some \<lparr>schema = columns a, rows = []\<rparr>"
        using create_tables_keeps by blast
      with True show ?thesis by simp
    qed
  next
    case False
    with Cons.prems(2) have "m \<in> set ms" by simp
    with step Cons.IH show ?thesis by blast
  qed
qed

lemma total_rows_empty_tables: "total_rows (empty_tables ms) = 0"
  by (induction ms) (simp_all add: total_rows_def empty_tables_def)

lemma total_rows_zero: "total_rows d = 0 \<Longrightarrow> table_rows d n = []"
proof (induction d)
  case Nil
  then show ?case by (simp add: table_rows_def)
next
  case (Cons a d)
  obtain m t where a: "a = (m, t)" by (cases a)
  from Cons.prems a have "rows t = []" and "total_rows d = 0" by (simp_all add: total_rows_def)
  with Cons.IH a show ?case by (simp add: table_rows_def)
qed

lemma create_tables_distinct:
  "create_tables e k ms d = (r, d') \<Longrightarrow> distinct (map fst d) \<Longrightarrow> distinct (map fst d')"
proof (induction ms arbitrary: k d)
  case Nil
  then show ?case by simp
next
  case (Cons m ms)
  show ?case
  proof (cases "map_of d (tablename m) \<noteq> None")
    case True
    with Cons.prems have "create_tables e k ms d = (r, d')" by simp
    then show ?thesis using Cons.IH Cons.prems(2) by blast
  next
    case absent: False
    show ?thesis
    proof (cases "ddl_fault e = Some k")
      case True
      with absent Cons.prems show ?thesis by simp
    next
      case False
      let ?d = "d @ [(tablename m, \<lparr>schema = columns m, rows = []\<rparr>)]"
      from absent False Cons.prems have "create_tables e (Suc k) ms ?d = (r, d')" by simp
      moreover from absent Cons.prems(2) have "distinct (map fst ?d)"
        by (simp add: map_of_eq_None_iff)
      ultimately show ?thesis using Cons.IH by blast
    qed
  qed
qed

lemma create_tables_created:
  "create_tables e k ms d = (r, d') \<Longrightarrow> map_of d n = None \<Longrightarrow> map_of d' n = Some t \<Longrightarrow>
   \<exists>m\<in>set ms. tablename m = n \<and> t = \<lparr>schema = columns m, rows = []\<rparr>"
proof (induction ms arbitrary: k d)
  case Nil
  then show ?case by simp
next
  case (Cons a ms)
  show ?case
  proof (cases "map_of d (tablename a) \<noteq> None")
    case True
    with Cons.prems have "create_tables e k ms d = (r, d')" by simp
    from Cons.IH[OF this Cons.prems(2,3)] show ?thesis by auto
  next
    case absent: False
    show ?thesis
    proof (cases "ddl_fault e = Some k")
      case True
      with absent Cons.prems show ?thesis by simp
    next
      case False
      let ?t = "\<lparr>schema = columns a, rows = []\<rparr>"
      let ?d = "d @ [(tablename a, ?t)]"
      from absent False Cons.prems have rest: "create_tables e (Suc k) ms ?d = (r, d')" by simp
      show ?thesis
      proof (cases "n = tablename a")
        case True
        with Cons.prems(2) have "map_of ?d n = Some ?t" by (simp add: map_add_def)
        from create_tables_keeps[OF rest this] Cons.prems(3) have "t = ?t" by simp
        with True show ?thesis by auto
      next
        case False
        with Cons.prems(2) have "map_of ?d n = None" by (simp add: map_add_def)
        from Cons.IH[OF rest this Cons.prems(3)] show ?thesis by auto
      qed
    qed
  qed
qed

lemma create_tables_raises:
  "create_tables e k ms d = (Some err, d') \<Longrightarrow> ddl_fault e \<noteq> None"
proof (induction ms arbitrary: k d)
  case Nil
  then show ?case by simp
next
  case (Cons m ms)
  show ?case
  proof (cases "ddl_fault e")
    case None
    with Cons.prems have
      "create_tables e k ms d = (Some err, d') \<or>
       create_tables e (Suc k) ms (d @ [(tablename m, \<lparr>schema = columns m, rows = []\<rparr>)]) =
         (Some err, d')"
      by (cases "map_of d (tablename m) = None") simp_all
    with Cons.IH show ?thesis by blast
  next
    case (Some k')
    then show ?thesis by simp
  qed
qed

lemma commit_failure: "commit e s = (Some err, s') \<Longrightarrow> s' = s"
  by (simp add: commit_def split: sum.splits if_splits)

lemma before_commit_rows:
  assumes "run (before_commit e) s0 = (r, s1)"
  shows "table_rows (db s1) n = table_rows (db s0) n"
    and "total_rows (db s1) = total_rows (db s0)"
proof -
  obtain r0 s0' where ca: "create_all e Base_metadata s0 = (r0, s0')"
    by (cases "create_all e Base_metadata s0")
  have d0: "table_rows (db s0') n = table_rows (db s0) n" "total_rows (db s0') = total_rows (db s0)"
    using create_all_cases[OF ca] create_tables_table_rows create_tables_total by fastforce+
  have parts: "before_commit e = (create_the_database e @ establishing_session) @
      (insert_sample_data e @ add_data_to_the_session)"
    by (simp add: before_commit_def)
  have bc: "run (before_commit e) s0 =
      (case r0 of
         Some err \<Rightarrow> (Some err, s0')
       | None \<Rightarrow> run (insert_sample_data e @ add_data_to_the_session)
           (s0'\<lparr>session_open := True, session_new := []\<rparr>))"
    by (simp only: parts run_append[of "create_the_database e @ establishing_session"])
      (simp add: run_schema_and_session ca split: option.split)
  have "db s1 = db s0'"
  proof (cases r0)
    case None
    with bc assms have "run (insert_sample_data e @ add_data_to_the_session)
        (s0'\<lparr>session_open := True, session_new := []\<rparr>) = (r, s1)"
      by simp
    from sample_data_queued[OF this] show ?thesis by simp
  next
    case (Some err)
    with bc assms show ?thesis by auto
  qed
  with d0 show "table_rows (db s1) n = table_rows (db s0) n"
    and "total_rows (db s1) = total_rows (db s0)"
    by simp_all
qed

lemma main_failure_keeps_rows:
  assumes "main e s0 = (Some err, s)"
  shows "table_rows (db s) n = table_rows (db s0) n"
proof -
  obtain r1 s1 where bc: "run (before_commit e) s0 = (r1, s1)"
    by (cases "run (before_commit e) s0")
  have m: "main e s0 =
      (case r1 of Some err' \<Rightarrow> (Some err', s1) | None \<Rightarrow> run [commit e, close] s1)"
    by (simp add: main_def run_append bc split: option.split)
  have "s = s1"
  proof (cases r1)
    case (Some err')
    with m assms show ?thesis by simp
  next
    case None
    with m assms have "run [commit e, close] s1 = (Some err, s)" by simp
    then have "commit e s1 = (Some err, s)"
      by (simp add: close_def split: prod.splits option.splits)
    then show ?thesis using commit_failure by blast
  qed
  with before_commit_rows(1)[OF bc] show ?thesis by simp
qed

lemma parents_simps:
  "parents Customer = []" "parents Product = []" "parents Order = [''customers'']"
  "parents OrderDetail = [''orders'', ''products'']" "parents Address = [''customers'']"
  "parents Supplier = []" "parents Inventory = [''products'', ''suppliers'']"
  "parents Payment = [''customers'']" "parents Category = []"
  "parents ProductCategory = [''products'', ''categories'']" "parents Employee = []"
  "parents Shipment = [''orders'']"
  by (simp_all add: parents_def model_defs Column_def ColumnFK_def fk_table_def)

lemma required_simps:
  "required Customer = [''name'']" "required Product = [''name'']"
  "required Order = [''customer_id'']"
  "required OrderDetail = [''order_id'', ''product_id'', ''quantity'']"
  "required Address = [''customer_id'', ''address_line1'', ''city'']"
  "required Supplier = [''name'']"
  "required Inventory = [''product_id'', ''supplier_id'', ''quantity'']"
  "required Payment = [''customer_id'', ''amount'']" "required Category = [''name'']"
  "required ProductCategory = [''product_id'', ''category_id'']"
  "required Employee = [''name'']" "required Shipment = [''order_id'']"
  by (simp_all add: required_def model_defs Column_def ColumnFK_def is_nullable_def)

lemma seed_tables:
  "map (\<lambda>x. tablename (cls x)) (seed_records e) =
     [''customers'', ''customers'', ''products'', ''products'', ''orders'', ''orders'',
      ''order_details'', ''order_details'', ''addresses'', ''addresses'', ''suppliers'',
      ''suppliers'', ''inventory'', ''inventory'', ''payments'', ''payments'', ''categories'',
      ''categories'', ''product_categories'', ''product_categories'', ''employees'',
      ''employees'', ''shipments'', ''shipments'']"
  by (simp add: seed_records_def seed_lists_def records_def seed_defs new_def column_names
      tablename_simps)

lemma submitted_seed_records: "submitted e s = seed_records e"
proof -
  let ?s = "s\<lparr>session_open := True, session_new := []\<rparr>"
  obtain r s' where q: "run (insert_sample_data e @ add_data_to_the_session) ?s = (r, s')"
    by (cases "run (insert_sample_data e @ add_data_to_the_session) ?s")
  then have "run (establishing_session @ insert_sample_data e @ add_data_to_the_session) s = (r, s')"
    by (simp add: establishing_session_def Session_def)
  moreover from sample_data_queued[OF q] have "session_new s' = seed_records e" by simp
  ultimately show ?thesis by (simp add: submitted_def)
qed

lemma seed_ordinals_exist: "ordinals_exist (seed_records e)"
  by (simp add: ordinals_exist_def seed_records_eq model_defs Column_def ColumnFK_def
      attr_def fk_table_def)

lemma set_attributes_columns:
  "list_all (\<lambda>(k, v). k \<in> set (map fst (columns c))) kw \<Longrightarrow> set_attributes e c kw = None"
proof (induction kw)
  case Nil
  then show ?case by simp
next
  case (Cons a kw)
  obtain k v where a: "a = (k, v)" by (cases a)
  from Cons.prems a have "k \<in> set (map fst (columns c))"
    and "list_all (\<lambda>(k, v). k \<in> set (map fst (columns c))) kw"
    by simp_all
  with Cons.IH a show ?case by (simp del: set_map)
qed

lemma set_attributes_raises:
  "set_attributes e c kw = Some err \<Longrightarrow>
   \<exists>(k, v)\<in>set kw. k \<notin> set (map fst (columns c)) \<and> other_keyword e c k v = Some err"
proof (induction kw)
  case Nil
  then show ?case by simp
next
  case (Cons a kw)
  obtain k v where a: "a = (k, v)" by (cases a)
  show ?case
  proof (cases "k \<in> set (map fst (columns c))")
    case True
    with Cons.prems a have "set_attributes e c kw = Some err" by simp
    with Cons.IH show ?thesis by auto
  next
    case False
    show ?thesis
    proof (cases "other_keyword e c k v")
      case None
      with False Cons.prems a have "set_attributes e c kw = Some err" by simp
      with Cons.IH show ?thesis by auto
    next
      case (Some err')
      with False Cons.prems a have "err' = err" by simp
      with Some False a show ?thesis by auto
    qed
  qed
qed

lemma set_attributes_accepts:
  "set_attributes e c kw = None \<Longrightarrow>
   list_all (\<lambda>(k, v). k \<in> set (map fst (columns c)) \<or> other_keyword e c k v = None) kw"
proof (induction kw)
  case Nil
  then show ?case by simp
next
  case (Cons a kw)
  obtain k v where a: "a = (k, v)" by (cases a)
  show ?case
  proof (cases "k \<in> set (map fst (columns c))")
    case True
    with Cons.prems a have "set_attributes e c kw = None" by simp
    with Cons.IH True a show ?thesis by simp
  next
    case False
    with Cons.prems a have "other_keyword e c k v = None" and "set_attributes e c kw = None"
      by (simp_all split: option.splits)
    with Cons.IH a show ?thesis by simp
  qed
qed

section \<open>The claims\<close>

text \<open>
  C1. The classes are declared, and their seed records queued for the commit, parents
  first: every table a foreign key points to comes before the table holding the key, in
  the order of declaration and in the order of submission. The foreign keys are those the
  claim lists: orders, addresses and payments point to customers; order_details to orders
  and products; shipments to orders; inventory to products and suppliers;
  product_categories to products and categories.
\<close>

theorem parents_declared_and_submitted_first:
  "topological Base_metadata (map tablename Base_metadata) \<and>
   topological Base_metadata (map (\<lambda>x. tablename (cls x)) (submitted e s)) \<and>
   map (\<lambda>m. (tablename m, parents m)) Base_metadata =
     [(''customers'', []), (''products'', []), (''orders'', [''customers'']),
      (''order_details'', [''orders'', ''products'']), (''addresses'', [''customers'']),
      (''suppliers'', []), (''inventory'', [''products'', ''suppliers'']),
      (''payments'', [''customers'']), (''categories'', []),
      (''product_categories'', [''products'', ''categories'']), (''employees'', []),
      (''shipments'', [''orders''])]"
proof (intro conjI)
  show "topological Base_metadata (map tablename Base_metadata)"
    by (simp add: topological_def Base_metadata_def parents_simps tablename_simps precedes_def)
  show "topological Base_metadata (map (\<lambda>x. tablename (cls x)) (submitted e s))"
    by (simp add: submitted_seed_records seed_tables topological_def Base_metadata_def
        parents_simps tablename_simps precedes_def)
  show "map (\<lambda>m. (tablename m, parents m)) Base_metadata =
     [(''customers'', []), (''products'', []), (''orders'', [''customers'']),
      (''order_details'', [''orders'', ''products'']), (''addresses'', [''customers'']),
      (''suppliers'', []), (''inventory'', [''products'', ''suppliers'']),
      (''payments'', [''customers'']), (''categories'', []),
      (''product_categories'', [''products'', ''categories'']), (''employees'', []),
      (''shipments'', [''orders''])]"
    by (simp add: Base_metadata_def parents_simps tablename_simps)
qed

text \<open>
  C2. After a run on a fresh target that ends without error, the customers table holds
  exactly two rows, John Doe and Jane Smith with their e-mail addresses; the first order
  refers to the first customer; the first order detail has quantity 5 and refers to the
  first order and the first product.
\<close>

theorem full_seed_scenario:
  assumes "main e (start fresh) = (None, s)"
  shows "map (\<lambda>r. (field r ''name'', field r ''email'')) (table_rows (db s) ''customers'') =
      [(PyStr ''John Doe'', PyStr ''john.doe@example.com''),
       (PyStr ''Jane Smith'', PyStr ''jane.smith@example.com'')] \<and>
    field (table_rows (db s) ''customers'' ! 0) ''id'' = PyInt 1 \<and>
    field (table_rows (db s) ''orders'' ! 0) ''id'' = PyInt 1 \<and>
    field (table_rows (db s) ''products'' ! 0) ''id'' = PyInt 1 \<and>
    field (table_rows (db s) ''orders'' ! 0) ''customer_id'' = PyInt 1 \<and>
    field (table_rows (db s) ''order_details'' ! 0) ''quantity'' = PyInt 5 \<and>
    field (table_rows (db s) ''order_details'' ! 0) ''order_id'' = PyInt 1 \<and>
    field (table_rows (db s) ''order_details'' ! 0) ''product_id'' = PyInt 1"
proof -
  have calm: "dml_fault (calm (now e)) = None" by (simp add: calm_def)
  note seeded = flush_seed_records[of "calm (now e)" e, OF calm, unfolded main_success(1)[OF assms] sum.inject]
  show ?thesis by (simp add: seeded table_rows_def field_def)
qed

theorem full_seed_scenario_witness:
  "field (table_rows (db (snd (main (calm (Datetime 2024 5 17 9 30 0 0)) (start fresh))))
      ''order_details'' ! 0) ''quantity'' = PyInt 5"
  using full_seed_scenario[OF main_calm[of "Datetime 2024 5 17 9 30 0 0"]] by simp

text \<open>
  C3. Every foreign-key attribute of every seed record is 1 or 2 and counts a record that
  the seed list of the parent table holds; after a run that ends without error, every
  foreign-key value of every stored row is the key of a stored row of the parent table.
\<close>

theorem seeded_references_exist:
  assumes "main e (start fresh) = (None, s)"
  shows "ordinals_exist (seed_records e) \<and> references_exist (db s)"
proof
  show "ordinals_exist (seed_records e)"
    by (rule seed_ordinals_exist)
  have calm: "dml_fault (calm (now e)) = None" by (simp add: calm_def)
  note seeded = flush_seed_records[of "calm (now e)" e, OF calm, unfolded main_success(1)[OF assms] sum.inject]
  show "references_exist (db s)"
    by (simp add: seeded references_exist_def table_rows_def field_def model_defs Column_def
        ColumnFK_def fk_table_def fk_column_def)
qed

theorem seeded_references_exist_witness:
  "references_exist (db (snd (main (calm (Datetime 2024 5 17 9 30 0 0)) (start fresh))))"
  using seeded_references_exist[OF main_calm[of "Datetime 2024 5 17 9 30 0 0"]] by simp

text \<open>
  C4. The records of the twelve lists are written by the one commit at the end of the
  script, as a unit: a run on a fresh target either ends without error with all 24 rows
  stored, two in each table, or ends with an error and no row in any table. Nothing is
  written before the commit, and on any target a run that ends with an error leaves the
  rows of every table as they were.
\<close>

theorem all_or_nothing:
  assumes "main e (start fresh) = (r, s)"
  shows "((r = None \<and> total_rows (db s) = 24 \<and>
       list_all (\<lambda>m. length (table_rows (db s) (tablename m)) = 2) Base_metadata) \<or>
      (r \<noteq> None \<and> total_rows (db s) = 0 \<and>
       list_all (\<lambda>m. table_rows (db s) (tablename m) = []) Base_metadata)) \<and>
    total_rows (db (snd (run (before_commit e) s0))) = total_rows (db s0) \<and>
    (fst (main e (start d)) = None \<or>
     (\<forall>n. table_rows (db (snd (main e (start d)))) n = table_rows d n))"
proof (intro conjI)
  show "(r = None \<and> total_rows (db s) = 24 \<and>
       list_all (\<lambda>m. length (table_rows (db s) (tablename m)) = 2) Base_metadata) \<or>
      (r \<noteq> None \<and> total_rows (db s) = 0 \<and>
       list_all (\<lambda>m. table_rows (db s) (tablename m) = []) Base_metadata)"
  proof (cases r)
    case None
    have calm: "dml_fault (calm (now e)) = None" by (simp add: calm_def)
    note seeded = flush_seed_records[of "calm (now e)" e, OF calm,
        unfolded main_success(1)[OF assms[unfolded None]] sum.inject]
    have "total_rows (db s) = 24" by (simp add: seeded total_rows_def)
    moreover have "list_all (\<lambda>m. length (table_rows (db s) (tablename m)) = 2) Base_metadata"
      by (simp add: seeded Base_metadata_def tablename_simps table_rows_def)
    ultimately show ?thesis using None by simp
  next
    case (Some err)
    from main_outcome[OF assms] Some have "total_rows (db s) = 0"
      by (auto simp: total_rows_empty_tables)
    moreover from this have "list_all (\<lambda>m. table_rows (db s) (tablename m) = []) Base_metadata"
      by (simp add: list_all_iff total_rows_zero)
    ultimately show ?thesis using Some by simp
  qed
  show "total_rows (db (snd (run (before_commit e) s0))) = total_rows (db s0)"
    using before_commit_rows(2)[of e s0] by (cases "run (before_commit e) s0") simp
  show "fst (main e (start d)) = None \<or>
     (\<forall>n. table_rows (db (snd (main e (start d)))) n = table_rows d n)"
  proof (cases "main e (start d)")
    case (Pair r' s')
    show ?thesis
    proof (cases r')
      case None
      with Pair show ?thesis by simp
    next
      case (Some err)
      with Pair have "\<forall>n. table_rows (db s') n = table_rows (db (start d)) n"
        using main_failure_keeps_rows by blast
      with Pair show ?thesis by (simp add: start_def)
    qed
  qed
qed

theorem all_or_nothing_witness:
  "fst (main (rejecting (Datetime 2024 5 17 9 30 0 0)) (start fresh)) \<noteq> None \<and>
   total_rows (db (snd (main (rejecting (Datetime 2024 5 17 9 30 0 0)) (start fresh)))) = 0"
proof -
  let ?e = "rejecting (Datetime 2024 5 17 9 30 0 0)"
  have failed: "fst (main ?e (start fresh)) = Some OperationalError"
    by (rule main_insert_rejected(1)) (simp_all add: rejecting_def calm_def)
  have "main ?e (start fresh) = (fst (main ?e (start fresh)), snd (main ?e (start fresh)))"
    by simp
  from all_or_nothing[OF this] failed show ?thesis by simp
qed

text \<open>
  C5. Two runs on a fresh target that end without error leave the same database, whatever
  the clock read and whatever else the environment was: every column with a current-time
  default (the three date columns of orders, payments and employees) gets an explicit
  value in every seed record.
\<close>

theorem seeding_deterministic:
  assumes "main e1 (start fresh) = (None, s1)" and "main e2 (start fresh) = (None, s2)"
  shows "db s1 = db s2 \<and>
    map (\<lambda>m. (tablename m, defaulted m)) Base_metadata =
      [(''customers'', []), (''products'', []), (''orders'', [''order_date'']),
       (''order_details'', []), (''addresses'', []), (''suppliers'', []), (''inventory'', []),
       (''payments'', [''payment_date'']), (''categories'', []), (''product_categories'', []),
       (''employees'', [''hire_date'']), (''shipments'', [])] \<and>
    list_all (\<lambda>x. list_all (\<lambda>k. attr x k \<noteq> PyNone) (defaulted (cls x))) (seed_records e)"
proof (intro conjI)
  have "Inr (db s1) = (Inr (db s2) :: error + database)"
    using main_success(1)[OF assms(1)] main_success(1)[OF assms(2)]
      flush_seed_records[of "calm (now e1)" e1]
      flush_seed_records[of "calm (now e2)" e2]
    by (simp add: calm_def)
  then show "db s1 = db s2" by simp
  show "map (\<lambda>m. (tablename m, defaulted m)) Base_metadata =
      [(''customers'', []), (''products'', []), (''orders'', [''order_date'']),
       (''order_details'', []), (''addresses'', []), (''suppliers'', []), (''inventory'', []),
       (''payments'', [''payment_date'']), (''categories'', []), (''product_categories'', []),
       (''employees'', [''hire_date'']), (''shipments'', [])]"
    by (simp add: Base_metadata_def defaulted_def model_defs Column_def ColumnFK_def)
  show "list_all (\<lambda>x. list_all (\<lambda>k. attr x k \<noteq> PyNone) (defaulted (cls x))) (seed_records e)"
    by (simp add: seed_records_eq defaulted_def model_defs Column_def ColumnFK_def attr_def)
qed

theorem seeding_deterministic_witness:
  "db (snd (main (calm (Datetime 2024 5 17 9 30 0 0)) (start fresh))) =
   db (snd (main (calm (Datetime 2031 12 24 23 59 59 7)) (start fresh)))"
  using seeding_deterministic[OF main_calm[of "Datetime 2024 5 17 9 30 0 0"]
      main_calm[of "Datetime 2031 12 24 23 59 59 7"]]
  by simp

text \<open>
  C6, as the spec states it, fails: building a record checks nothing about the records it
  refers to. An order for customer 99 is built without error although the seed data has
  two customers only.
\<close>

theorem dangling_reference_not_detected:
  "evaluate [new (calm (Datetime 2024 5 17 9 30 0 0)) Order [(''customer_id'', PyInt 99),
       (''order_date'', PyDatetime (datetime_datetime 2023 3 1))]] =
     Inr [\<lparr>cls = Order, attrs = [(''customer_id'', PyInt 99),
       (''order_date'', PyDatetime (datetime_datetime 2023 3 1))]\<rparr>] \<and>
   \<not> ordinals_exist (records (customers (calm (Datetime 2024 5 17 9 30 0 0))) @
     [\<lparr>cls = Order, attrs = [(''customer_id'', PyInt 99),
       (''order_date'', PyDatetime (datetime_datetime 2023 3 1))]\<rparr>])"
  by (simp add: new_def column_names ordinals_exist_def records_def customers_def
      Customer_def Order_def Column_def ColumnFK_def attr_def fk_table_def)

text \<open>
  C6, amended. Building a record checks no reference. A keyword that names a column of
  the class is stored whatever its value, so a foreign key that refers to a record that
  does not exist is not detected at this step and raises nothing. Construction raises
  only at a keyword that is no column of the class, with the error the library gives for
  that keyword, and it returns the record exactly when the library accepts every such
  keyword. The twelve seed lists use column keywords only: in every environment they are
  built without error, and the ordinals they refer to exist.
\<close>

theorem construction_checks_no_reference:
  "(list_all (\<lambda>(k, v). k \<in> set (map fst (columns c))) kw \<longrightarrow>
      new e c kw = Inr \<lparr>cls = c, attrs = kw\<rparr>) \<and>
   (\<forall>err. new e c kw = Inl err \<longrightarrow>
      (\<exists>(k, v)\<in>set kw. k \<notin> set (map fst (columns c)) \<and> other_keyword e c k v = Some err)) \<and>
   (\<forall>x. new e c kw = Inr x \<longrightarrow>
      x = \<lparr>cls = c, attrs = kw\<rparr> \<and>
      list_all (\<lambda>(k, v). k \<in> set (map fst (columns c)) \<or> other_keyword e c k v = None) kw) \<and>
   list_all (\<lambda>xs. evaluate xs = Inr (records xs)) (seed_lists e) \<and>
   list_all (\<lambda>x. list_all (\<lambda>(k, v). k \<in> set (map fst (columns (cls x)))) (attrs x))
     (seed_records e) \<and>
   ordinals_exist (seed_records e)"
proof (intro conjI allI impI)
  assume "list_all (\<lambda>(k, v). k \<in> set (map fst (columns c))) kw"
  then show "new e c kw = Inr \<lparr>cls = c, attrs = kw\<rparr>"
    by (simp add: new_def set_attributes_columns)
next
  fix err
  assume "new e c kw = Inl err"
  then have "set_attributes e c kw = Some err"
    by (simp add: new_def split: option.splits)
  then show "\<exists>(k, v)\<in>set kw. k \<notin> set (map fst (columns c)) \<and> other_keyword e c k v = Some err"
    by (rule set_attributes_raises)
next
  fix x
  assume built: "new e c kw = Inr x"
  then show "x = \<lparr>cls = c, attrs = kw\<rparr>"
    by (simp add: new_def split: option.splits)
  from built have "set_attributes e c kw = None"
    by (simp add: new_def split: option.splits)
  then show "list_all (\<lambda>(k, v). k \<in> set (map fst (columns c)) \<or> other_keyword e c k v = None) kw"
    by (rule set_attributes_accepts)
next
  show "list_all (\<lambda>xs. evaluate xs = Inr (records xs)) (seed_lists e)"
    by (simp add: seed_lists_def evaluate_seed_lists)
  show "list_all (\<lambda>x. list_all (\<lambda>(k, v). k \<in> set (map fst (columns (cls x)))) (attrs x))
     (seed_records e)"
    by (simp add: seed_records_eq column_names del: set_map)
  show "ordinals_exist (seed_records e)"
    by (rule seed_ordinals_exist)
qed

theorem construction_checks_no_reference_witness:
  "new (calm (Datetime 2024 5 17 9 30 0 0)) Shipment [(''order_id'', PyInt 7)] =
     Inr \<lparr>cls = Shipment, attrs = [(''order_id'', PyInt 7)]\<rparr>"
proof -
  have "list_all (\<lambda>(k, v). k \<in> set (map fst (columns Shipment))) [(''order_id'', PyInt 7)]"
    by (simp add: column_names del: set_map)
  with construction_checks_no_reference[where c = Shipment and kw = "[(''order_id'', PyInt 7)]"
      and e = "calm (Datetime 2024 5 17 9 30 0 0)", THEN conjunct1]
  show ?thesis by (rule mp)
qed

text \<open>
  C7, as the spec states it, fails: schema creation looks only at whether a table of the
  declared name exists. On a target that already has a \<^verbatim>\<open>customers\<close> table with other
  column types it raises nothing and leaves that table as it found it.
\<close>

theorem conflicting_table_not_detected:
  "fst (create_all (calm (Datetime 2024 5 17 9 30 0 0)) Base_metadata (start conflicting)) = None \<and>
   map_of (db (snd (create_all (calm (Datetime 2024 5 17 9 30 0 0)) Base_metadata
     (start conflicting)))) ''customers'' = Some conflicting_customers \<and>
   map (\<lambda>(k, c). (k, ctype c)) (schema conflicting_customers) \<noteq>
   map (\<lambda>(k, c). (k, ctype c)) (take 2 (columns Customer))"
  by (simp add: create_all_def start_def conflicting_def calm_def Base_metadata_def
      tablename_simps conflicting_customers_def Customer_def Column_def)

text \<open>
  C7, amended. Schema creation is create-if-absent and detects no conflict. It raises,
  with \<^verbatim>\<open>OperationalError\<close>, only when the database cannot be opened or the storage
  rejects a \<^verbatim>\<open>CREATE TABLE\<close>. A table that exists is left as it is whatever its
  structure; a table that is there afterwards and was not before is one of the declared
  tables, with its declared columns and no rows; no row of any table changes; when the
  call raises nothing every declared table exists afterwards; no table name comes to occur
  twice; and when every declared table exists already the call changes nothing, and raises
  nothing if the database can be opened. The session is not touched.
\<close>

theorem create_all_if_absent:
  assumes "create_all e ms s = (r, s')"
  shows "(r = None \<or> r = Some OperationalError) \<and>
    (r \<noteq> None \<longrightarrow> connect_fault e \<or> ddl_fault e \<noteq> None) \<and>
    (\<forall>n t. map_of (db s) n = Some t \<longrightarrow> map_of (db s') n = Some t) \<and>
    (\<forall>n t. map_of (db s) n = None \<longrightarrow> map_of (db s') n = Some t \<longrightarrow>
       (\<exists>m\<in>set ms. tablename m = n \<and> t = \<lparr>schema = columns m, rows = []\<rparr>)) \<and>
    (\<forall>n. table_rows (db s') n = table_rows (db s) n) \<and>
    (r = None \<longrightarrow> list_all (\<lambda>m. map_of (db s') (tablename m) \<noteq> None) ms) \<and>
    (distinct (map fst (db s)) \<longrightarrow> distinct (map fst (db s'))) \<and>
    (list_all (\<lambda>m. map_of (db s) (tablename m) \<noteq> None) ms \<longrightarrow>
       s' = s \<and> (r = None \<or> connect_fault e)) \<and>
    session_open s' = session_open s \<and> session_new s' = session_new s"
proof (cases "connect_fault e")
  case True
  with assms have "r = Some OperationalError" "s' = s" by (simp_all add: create_all_def)
  with True show ?thesis by simp
next
  case False
  with create_all_cases[OF assms] have
    ct: "create_tables e 0 ms (db s) = (r, db s')" and s': "s' = s\<lparr>db := db s'\<rparr>"
    by simp_all
  have "r = None \<or> r = Some OperationalError" using create_tables_error[OF ct] .
  moreover have "r \<noteq> None \<longrightarrow> connect_fault e \<or> ddl_fault e \<noteq> None"
    using create_tables_raises ct by fastforce
  moreover have "\<forall>n t. map_of (db s) n = Some t \<longrightarrow> map_of (db s') n = Some t"
    using create_tables_keeps[OF ct] by blast
  moreover have "\<forall>n t. map_of (db s) n = None \<longrightarrow> map_of (db s') n = Some t \<longrightarrow>
       (\<exists>m\<in>set ms. tablename m = n \<and> t = \<lparr>schema = columns m, rows = []\<rparr>)"
    using create_tables_created[OF ct] by blast
  moreover have "\<forall>n. table_rows (db s') n = table_rows (db s) n"
    using create_tables_table_rows[OF ct] by blast
  moreover have "r = None \<longrightarrow> list_all (\<lambda>m. map_of (db s') (tablename m) \<noteq> None) ms"
    using create_tables_exists ct by (fastforce simp: list_all_iff)
  moreover have "distinct (map fst (db s)) \<longrightarrow> distinct (map fst (db s'))"
    using create_tables_distinct[OF ct] by blast
  moreover have "list_all (\<lambda>m. map_of (db s) (tablename m) \<noteq> None) ms \<longrightarrow>
       s' = s \<and> (r = None \<or> connect_fault e)"
  proof
    assume "list_all (\<lambda>m. map_of (db s) (tablename m) \<noteq> None) ms"
    from create_tables_present[OF this, of e 0] ct have "r = None" "db s' = db s" by simp_all
    with s' show "s' = s \<and> (r = None \<or> connect_fault e)" by simp
  qed
  moreover have "session_open s' = session_open s \<and> session_new s' = session_new s"
    by (subst (1 2) s') simp
  ultimately show ?thesis by blast
qed

theorem create_all_if_absent_witness:
  "list_all (\<lambda>m. map_of (db (snd (create_all (calm (Datetime 2024 5 17 9 30 0 0)) Base_metadata
      (start fresh)))) (tablename m) \<noteq> None) Base_metadata \<and>
   table_rows (db (snd (create_all (calm (Datetime 2024 5 17 9 30 0 0)) Base_metadata
      (start fresh)))) ''customers'' = []"
proof -
  let ?e = "calm (Datetime 2024 5 17 9 30 0 0)"
  have ok: "fst (create_all ?e Base_metadata (start fresh)) = None"
    by (simp add: create_all_def start_def create_tables_fresh[unfolded fresh_def] calm_def
        fresh_def)
  have "create_all ?e Base_metadata (start fresh) =
      (fst (create_all ?e Base_metadata (start fresh)),
       snd (create_all ?e Base_metadata (start fresh)))"
    by simp
  from create_all_if_absent[OF this] ok have
    "list_all (\<lambda>m. map_of (db (snd (create_all ?e Base_metadata (start fresh))))
        (tablename m) \<noteq> None) Base_metadata"
    and "\<forall>n. table_rows (db (snd (create_all ?e Base_metadata (start fresh)))) n =
        table_rows (db (start fresh)) n"
    by simp_all
  moreover have "table_rows (db (start fresh)) ''customers'' = []"
    by (simp add: start_def fresh_def table_rows_def)
  ultimately show ?thesis by simp
qed

text \<open>
  C8. The fields the spec marks as required are exactly the columns declared
  \<^verbatim>\<open>nullable=False\<close>, and every seed record gives each of them a value other than
  \<^verbatim>\<open>None\<close>.
\<close>

theorem required_fields_given:
  "map (\<lambda>m. (tablename m, required m)) Base_metadata =
     [(''customers'', [''name'']), (''products'', [''name'']), (''orders'', [''customer_id'']),
      (''order_details'', [''order_id'', ''product_id'', ''quantity'']),
      (''addresses'', [''customer_id'', ''address_line1'', ''city'']),
      (''suppliers'', [''name'']),
      (''inventory'', [''product_id'', ''supplier_id'', ''quantity'']),
      (''payments'', [''customer_id'', ''amount'']), (''categories'', [''name'']),
      (''product_categories'', [''product_id'', ''category_id'']),
      (''employees'', [''name'']), (''shipments'', [''order_id''])] \<and>
   list_all (\<lambda>x. list_all (\<lambda>k. attr x k \<noteq> PyNone) (required (cls x))) (seed_records e)"
proof
  show "map (\<lambda>m. (tablename m, required m)) Base_metadata =
     [(''customers'', [''name'']), (''products'', [''name'']), (''orders'', [''customer_id'']),
      (''order_details'', [''order_id'', ''product_id'', ''quantity'']),
      (''addresses'', [''customer_id'', ''address_line1'', ''city'']),
      (''suppliers'', [''name'']),
      (''inventory'', [''product_id'', ''supplier_id'', ''quantity'']),
      (''payments'', [''customer_id'', ''amount'']), (''categories'', [''name'']),
      (''product_categories'', [''product_id'', ''category_id'']),
      (''employees'', [''name'']), (''shipments'', [''order_id''])]"
    by (simp add: Base_metadata_def required_simps tablename_simps)
  show "list_all (\<lambda>x. list_all (\<lambda>k. attr x k \<noteq> PyNone) (required (cls x))) (seed_records e)"
    by (simp add: seed_records_eq required_simps attr_def)
qed

text \<open>
  C9, as the spec states it, fails: the script closes the session in its last statement
  only, with no handler around the commit. When the storage rejects the first insert the
  commit raises, the script ends there, and the session is still open.
\<close>

theorem session_open_after_failed_commit:
  "fst (main (rejecting (Datetime 2024 5 17 9 30 0 0)) (start fresh)) = Some OperationalError \<and>
   session_open (snd (main (rejecting (Datetime 2024 5 17 9 30 0 0)) (start fresh)))"
  using main_insert_rejected(1,2)[of "rejecting (Datetime 2024 5 17 9 30 0 0)"]
  by (simp add: rejecting_def calm_def)

text \<open>
  C9, amended. The session is closed when the script ends without error. When schema
  creation raises, no session was opened yet. When a later statement raises, which on a
  fresh target only the commit does, the script ends with the session open.
\<close>

theorem session_closed_only_on_success:
  assumes "main e (start fresh) = (r, s)"
  shows "session_open s = (r \<noteq> None \<and> fst (create_all e Base_metadata (start fresh)) = None)"
  using main_outcome[OF assms] by auto

theorem session_closed_only_on_success_witness:
  "\<not> session_open (snd (main (calm (Datetime 2024 5 17 9 30 0 0)) (start fresh)))"
  using session_closed_only_on_success[OF main_calm[of "Datetime 2024 5 17 9 30 0 0"]] by simp

text \<open>
  C10. There are twelve seed lists of two records each; the session holds, at the commit,
  the records of the twelve lists once each, 24 in all; and after a run that ends without
  error each of the twelve tables holds exactly two rows.
\<close>

theorem two_rows_per_table:
  assumes "main e (start fresh) = (None, s)"
  shows "length (seed_lists e) = 12 \<and>
    list_all (\<lambda>xs. length xs = 2 \<and> length (records xs) = 2) (seed_lists e) \<and>
    submitted e s0 = concat (map records (seed_lists e)) \<and>
    length (submitted e s0) = 24 \<and>
    list_all (\<lambda>m. length (filter (\<lambda>x. tablename (cls x) = tablename m) (submitted e s0)) = 2)
      Base_metadata \<and>
    list_all (\<lambda>m. length (table_rows (db s) (tablename m)) = 2) Base_metadata \<and>
    total_rows (db s) = 24"
proof -
  have calm: "dml_fault (calm (now e)) = None" by (simp add: calm_def)
  note seeded = flush_seed_records[of "calm (now e)" e, OF calm, unfolded main_success(1)[OF assms] sum.inject]
  have "list_all (\<lambda>xs. length xs = 2 \<and> length (records xs) = 2) (seed_lists e)"
    by (simp add: seed_lists_def records_def evaluate_seed_lists[unfolded records_def] seed_defs
        new_def column_names)
  moreover have "length (submitted e s0) = 24"
    using arg_cong[OF seed_tables, of length] by (simp add: submitted_seed_records)
  moreover have "list_all
      (\<lambda>m. length (filter (\<lambda>x. tablename (cls x) = tablename m) (submitted e s0)) = 2)
      Base_metadata"
    by (simp add: submitted_seed_records seed_records_eq Base_metadata_def tablename_simps)
  moreover have "list_all (\<lambda>m. length (table_rows (db s) (tablename m)) = 2) Base_metadata"
    by (simp add: seeded Base_metadata_def tablename_simps table_rows_def)
  moreover have "total_rows (db s) = 24" by (simp add: seeded total_rows_def)
  ultimately show ?thesis
    by (simp add: submitted_seed_records seed_records_def) (simp add: seed_lists_def)
qed

theorem two_rows_per_table_witness:
  "total_rows (db (snd (main (calm (Datetime 2024 5 17 9 30 0 0)) (start fresh)))) = 24"
  using two_rows_per_table[OF main_calm[of "Datetime 2024 5 17 9 30 0 0"]] by simp

end
